theory Spec2Isabelle
  imports Main
begin

section \<open>JavaScript strings\<close>

text \<open>
  A JavaScript string is a sequence of UTF-16 code units: \<open>length\<close>, \<open>substring\<close>,
  \<open>includes\<close>, \<open>replace\<close> and a regular expression without the \<open>u\<close> flag all work on
  code units. A string is modelled as the list of its code units, each a natural number
  (below \<open>0x10000\<close> in a real string). ASCII literals are written \<open>js ''...''\<close>.
\<close>

type_synonym jsstring = "nat list"

definition js :: "string \<Rightarrow> jsstring" where
  "js s = map of_char s"

text \<open>
  The values a dynamically typed parameter can hold, as far as \<open>typeof\<close> tells them
  apart in this program.
\<close>

datatype jsvalue = JSString jsstring | JSNumber int | JSBoolean bool | JSNull | JSUndefined

section \<open>lib/shell-executor: sanitizeNotificationContent\<close>

text \<open>
  The character class \<open>[\x00-\x08\x0B\x0C\x0E-\x1F\x7F]\<close>: the C0 control characters
  other than tab (9), line feed (10) and carriage return (13), and DEL.
\<close>

definition isControlChar :: "nat \<Rightarrow> bool" where
  "isControlChar c \<longleftrightarrow> c \<le> 0x08 \<or> c = 0x0B \<or> c = 0x0C \<or> (0x0E \<le> c \<and> c \<le> 0x1F) \<or> c = 0x7F"

text \<open>\<open>content.replace(/[...]/g, '')\<close>: every code unit of the class is deleted.\<close>

definition removeControlChars :: "jsstring \<Rightarrow> jsstring" where
  "removeControlChars content = filter (\<lambda>c. \<not> isControlChar c) content"

definition maxLength :: nat where
  "maxLength = 1000"

text \<open>
  \<open>typeof content !== 'string'\<close> returns the empty string; otherwise the control
  characters are removed and a result longer than \<open>maxLength\<close> is cut with
  \<open>substring(0, maxLength) + '...'\<close>.
\<close>

fun sanitizeNotificationContent :: "jsvalue \<Rightarrow> jsstring" where
  "sanitizeNotificationContent (JSString content) =
     (let sanitized = removeControlChars content in
      if length sanitized > maxLength then take maxLength sanitized @ js ''...''
      else sanitized)"
| "sanitizeNotificationContent _ = []"

section \<open>hooks/notification-hook: the content classifier\<close>

text \<open>
  \<open>String.prototype.toLowerCase\<close>. The model maps the cased letters of Basic Latin and
  Latin-1, and the two code points outside ASCII whose lower case contains an ASCII
  letter: U+0130 (to \<open>i\<close> and U+0307) and the Kelvin sign U+212A (to \<open>k\<close>). Every
  other code unit is left as it is. The real method also changes cased letters of other
  scripts, always to code units outside ASCII that are no emoji; the tests of this
  program (ASCII words and emoji) cannot tell the difference.
\<close>

definition lowerUnit :: "nat \<Rightarrow> jsstring" where
  "lowerUnit c =
     (if 0x41 \<le> c \<and> c \<le> 0x5A then [c + 0x20]
      else if 0xC0 \<le> c \<and> c \<le> 0xDE \<and> c \<noteq> 0xD7 then [c + 0x20]
      else if c = 0x130 then [0x69, 0x307]
      else if c = 0x212A then [0x6B]
      else [c])"

definition toLowerCase :: "jsstring \<Rightarrow> jsstring" where
  "toLowerCase s = concat (map lowerUnit s)"

text \<open>
  A regular expression literal \<open>/word/i\<close> without the \<open>u\<close> flag compares code unit by
  code unit after canonicalising both sides. Canonicalisation takes a code unit to its
  upper case, except that a code unit from 128 on never becomes an ASCII one; for the
  ASCII letters this is the shift to \<open>A\<close>..\<open>Z\<close>. The patterns of this program hold
  ASCII characters and emoji code units only, so a code unit outside ASCII matches a
  pattern unit exactly when it is equal to it.
\<close>

definition canonicalize :: "nat \<Rightarrow> nat" where
  "canonicalize c = (if 0x61 \<le> c \<and> c \<le> 0x7A then c - 0x20 else c)"

fun matchesAt :: "jsstring \<Rightarrow> jsstring \<Rightarrow> bool" where
  "matchesAt [] content = True"
| "matchesAt (p # ps) [] = False"
| "matchesAt (p # ps) (c # cs) = (canonicalize p = canonicalize c \<and> matchesAt ps cs)"

text \<open>\<open>pattern.test(content)\<close>: the pattern matches at some position of the content.\<close>

fun regexTest :: "jsstring \<Rightarrow> jsstring \<Rightarrow> bool" where
  "regexTest pattern [] = matchesAt pattern []"
| "regexTest pattern (c # cs) = (matchesAt pattern (c # cs) \<or> regexTest pattern cs)"

text \<open>\<open>content.includes(word)\<close>: the word occurs, code unit for code unit.\<close>

fun startsWith :: "jsstring \<Rightarrow> jsstring \<Rightarrow> bool" where
  "startsWith [] content = True"
| "startsWith (p # ps) [] = False"
| "startsWith (p # ps) (c # cs) = (p = c \<and> startsWith ps cs)"

fun includesWord :: "jsstring \<Rightarrow> jsstring \<Rightarrow> bool" where
  "includesWord [] word = startsWith word []"
| "includesWord (c # cs) word = (startsWith word (c # cs) \<or> includesWord cs word)"

text \<open>
  The categories: the ten keys of the \<open>patterns\<close> object and the default \<open>'info'\<close>.
\<close>

datatype category =
  Error | Warning | Success | Progress | Git | Build | Test | Deploy | Npm | File | Info

text \<open>
  The pattern lists, in the order of the source. An emoji is written as its UTF-16 code
  units: a code point beyond U+FFFF is a surrogate pair, and the warning sign and the
  building crane carry the variation selector U+FE0F.
\<close>

definition errorPatterns :: "jsstring list" where
  "errorPatterns =
     [js ''error'', js ''failed'', js ''failure'', js ''crash'', js ''exception'', js ''fatal'',
      [0x274C], [0xD83D, 0xDEA8], [0xD83D, 0xDCA5],
      js ''broken'', js ''cannot'', js ''unable'', js ''invalid'']"

definition warningPatterns :: "jsstring list" where
  "warningPatterns =
     [js ''warning'', js ''caution'', js ''attention'', js ''notice'', js ''deprecated'',
      [0x26A0, 0xFE0F], [0xD83D, 0xDD14], [0xD83D, 0xDCE2],
      js ''might'', js ''should'', js ''consider'']"

definition successPatterns :: "jsstring list" where
  "successPatterns =
     [js ''complete'', js ''success'', js ''passed'', js ''done'', js ''finished'', js ''created'',
      [0x2705], [0xD83C, 0xDF89], [0x2728],
      js ''deployed'', js ''published'', js ''installed'', js ''ready'']"

definition progressPatterns :: "jsstring list" where
  "progressPatterns =
     [js ''progress'', js ''running'', js ''processing'', js ''installing'', js ''building'',
      js ''loading'', js ''starting'', js ''initializing'',
      [0xD83D, 0xDCCA], [0x23F3], [0xD83D, 0xDD04]]"

definition gitPatterns :: "jsstring list" where
  "gitPatterns =
     [js ''git'', js ''commit'', js ''push'', js ''pull'', js ''merge'', js ''branch'',
      js ''checkout'',
      [0xD83D, 0xDCDD], [0xD83D, 0xDD00], [0xD83D, 0xDCCB],
      js ''repository'', js ''repo'']"

definition buildPatterns :: "jsstring list" where
  "buildPatterns =
     [js ''build'', js ''compile'', js ''bundle'', js ''webpack'', js ''rollup'', js ''vite'',
      [0xD83C, 0xDFD7, 0xFE0F], [0xD83D, 0xDCE6],
      js ''typescript'', js ''babel'']"

definition testPatterns :: "jsstring list" where
  "testPatterns =
     [js ''test'', js ''spec'', js ''jest'', js ''vitest'', js ''cypress'', js ''mocha'',
      js ''jasmine'',
      [0xD83E, 0xDDEA],
      js ''coverage'', js ''assertion'']"

definition deployPatterns :: "jsstring list" where
  "deployPatterns =
     [js ''deploy'', js ''publish'', js ''release'', js ''production'', js ''staging'',
      [0xD83D, 0xDE80],
      js ''live'', js ''server'']"

definition npmPatterns :: "jsstring list" where
  "npmPatterns =
     [js ''npm'', js ''yarn'', js ''pnpm'', js ''package'', js ''dependency'',
      js ''node_modules'',
      [0xD83D, 0xDCE6],
      js ''install'', js ''update'']"

definition filePatterns :: "jsstring list" where
  "filePatterns =
     [js ''file'', js ''directory'', js ''folder'', js ''path'', js ''write'', js ''read'',
      js ''save'',
      [0xD83D, 0xDCC4], [0xD83D, 0xDCC1],
      js ''created'', js ''modified'', js ''deleted'']"

text \<open>\<open>Object.entries(patterns)\<close>: the entries in the order the keys were written.\<close>

definition patterns :: "(category \<times> jsstring list) list" where
  "patterns =
     [(Error, errorPatterns), (Warning, warningPatterns), (Success, successPatterns),
      (Progress, progressPatterns), (Git, gitPatterns), (Build, buildPatterns),
      (Test, testPatterns), (Deploy, deployPatterns), (Npm, npmPatterns),
      (File, filePatterns)]"

text \<open>\<open>categoryPatterns.some(pattern => pattern.test(content))\<close>.\<close>

definition somePattern :: "jsstring list \<Rightarrow> jsstring \<Rightarrow> bool" where
  "somePattern categoryPatterns content = list_ex (\<lambda>pattern. regexTest pattern content) categoryPatterns"

text \<open>
  The \<open>for\<close> loop over the entries: the first category with a matching pattern decides.
  For the five process categories the loop body then looks at \<open>patterns.error\<close> and
  \<open>patterns.success\<close> before it returns the category itself.
\<close>

fun analyzeLoop :: "(category \<times> jsstring list) list \<Rightarrow> jsstring \<Rightarrow> category" where
  "analyzeLoop [] content = Info"
| "analyzeLoop ((category, categoryPatterns) # entries) content =
     (if somePattern categoryPatterns content then
        (if category \<in> set [Test, Build, Git, Deploy, Npm] then
           (if somePattern errorPatterns content then Error
            else if somePattern successPatterns content then Success
            else category)
         else category)
      else analyzeLoop entries content)"

definition analyzeNotificationContent :: "jsstring \<Rightarrow> jsstring \<Rightarrow> category" where
  "analyzeNotificationContent title message =
     analyzeLoop patterns (toLowerCase (title @ js '' '' @ message))"

text \<open>
  The classifier the spec's refinement claim compares with: plain first match over the
  same ordered list, with no second look at the error and success patterns.
\<close>

fun firstMatch :: "(category \<times> jsstring list) list \<Rightarrow> jsstring \<Rightarrow> category" where
  "firstMatch [] content = Info"
| "firstMatch ((category, categoryPatterns) # entries) content =
     (if somePattern categoryPatterns content then category
      else firstMatch entries content)"

definition firstMatchClassifier :: "jsstring \<Rightarrow> jsstring \<Rightarrow> category" where
  "firstMatchClassifier title message =
     firstMatch patterns (toLowerCase (title @ js '' '' @ message))"

section \<open>hooks/notification-hook: styling\<close>

text \<open>
  A JavaScript condition on a string that may be \<open>undefined\<close> or \<open>null\<close>: only a
  string with at least one code unit is truthy.
\<close>

definition truthy :: "jsstring option \<Rightarrow> bool" where
  "truthy v = (case v of None \<Rightarrow> False | Some s \<Rightarrow> s \<noteq> [])"

text \<open>\<open>emojiMap[soundType]\<close>: every category the classifier returns has a glyph.\<close>

fun emojiMap :: "category \<Rightarrow> jsstring option" where
  "emojiMap Success = Some [0x2705]"
| "emojiMap Error = Some [0x274C]"
| "emojiMap Warning = Some [0x26A0, 0xFE0F]"
| "emojiMap Info = Some [0xD83D, 0xDCA1]"
| "emojiMap Progress = Some [0x23F3]"
| "emojiMap File = Some [0xD83D, 0xDCC4]"
| "emojiMap Git = Some [0xD83D, 0xDD00]"
| "emojiMap Build = Some [0xD83C, 0xDFD7, 0xFE0F]"
| "emojiMap Test = Some [0xD83E, 0xDDEA]"
| "emojiMap Npm = Some [0xD83D, 0xDCE6]"
| "emojiMap Deploy = Some [0xD83D, 0xDE80]"

text \<open>
  With the \<open>u\<close> flag a regular expression reads code points: a high surrogate followed
  by a low surrogate is one code point, any other code unit stands for itself.
\<close>

definition isHighSurrogate :: "nat \<Rightarrow> bool" where
  "isHighSurrogate c \<longleftrightarrow> 0xD800 \<le> c \<and> c \<le> 0xDBFF"

definition isLowSurrogate :: "nat \<Rightarrow> bool" where
  "isLowSurrogate c \<longleftrightarrow> 0xDC00 \<le> c \<and> c \<le> 0xDFFF"

fun codePoints :: "jsstring \<Rightarrow> nat list" where
  "codePoints [] = []"
| "codePoints [c] = [c]"
| "codePoints (h # l # cs) =
     (if isHighSurrogate h \<and> isLowSurrogate l
      then (0x10000 + (h - 0xD800) * 0x400 + (l - 0xDC00)) # codePoints cs
      else h # codePoints (l # cs))"

definition inEmojiRange :: "nat \<Rightarrow> bool" where
  "inEmojiRange cp \<longleftrightarrow> 0x1F300 \<le> cp \<and> cp \<le> 0x1F9FF"

text \<open>\<open>title.match(/[\u{1F300}-\u{1F9FF}]/u)\<close> finds a match.\<close>

definition matchesEmojiRange :: "jsstring \<Rightarrow> bool" where
  "matchesEmojiRange title = list_ex inEmojiRange (codePoints title)"

text \<open>
  \<open>getNotificationContext\<close> returns the empty string on every branch that recognises
  the content, and \<open>null\<close> otherwise.
\<close>

definition getNotificationContext :: "jsstring \<Rightarrow> jsstring \<Rightarrow> jsstring option" where
  "getNotificationContext title message =
     (let content = toLowerCase (title @ js '' '' @ message);
          fileOperation = (includesWord content (js ''file'') \<or> includesWord content (js ''write'')
                           \<or> includesWord content (js ''read''))
      in
      if fileOperation \<and> (includesWord content (js ''created'') \<or> includesWord content (js ''added''))
        then Some []
      else if fileOperation \<and> (includesWord content (js ''modified'') \<or> includesWord content (js ''updated''))
        then Some []
      else if fileOperation \<and> (includesWord content (js ''deleted'') \<or> includesWord content (js ''removed''))
        then Some []
      else if includesWord content (js ''git'') \<or> includesWord content (js ''commit'')
              \<or> includesWord content (js ''push'')
        then Some []
      else if includesWord content (js ''build'') \<or> includesWord content (js ''compile'')
              \<or> includesWord content (js ''bundle'')
        then Some []
      else if includesWord content (js ''test'') \<or> includesWord content (js ''spec'')
        then Some []
      else None)"

record enhanced =
  enhancedTitle :: jsstring
  enhancedMessage :: jsstring
  sound :: category

definition enhanceNotificationStyle :: "jsstring \<Rightarrow> jsstring \<Rightarrow> category \<Rightarrow> enhanced" where
  "enhanceNotificationStyle title message soundType =
     (let emoji = emojiMap soundType;
          styledTitle =
            (case emoji of
               Some glyph \<Rightarrow>
                 if truthy emoji \<and> \<not> matchesEmojiRange title then glyph @ js '' '' @ title
                 else title
             | None \<Rightarrow> title);
          contextClue = getNotificationContext title message;
          withContext =
            (case contextClue of
               Some clue \<Rightarrow> if truthy contextClue then clue @ js '' '' @ message else message
             | None \<Rightarrow> message);
          styledMessage =
            (if length withContext > 200 then take 197 withContext @ js ''...''
             else withContext)
      in \<lparr>enhancedTitle = styledTitle, enhancedMessage = styledMessage, sound = soundType\<rparr>)"

text \<open>
  The two steps as \<open>main\<close> runs them: classify the pair, then style it with the
  category found.
\<close>

definition classifyAndStyle :: "jsstring \<Rightarrow> jsstring \<Rightarrow> enhanced" where
  "classifyAndStyle title message =
     enhanceNotificationStyle title message (analyzeNotificationContent title message)"

text \<open>
  What the spec's claim about styled titles speaks of. An emoji is a code point of the
  range the code tests, or one of the four glyphs of \<open>emojiMap\<close> that lie below it
  (check mark, cross mark, warning sign, hourglass). A title has exactly one leading
  emoji when its first code point is an emoji and no other code point is.
\<close>

definition isEmoji :: "nat \<Rightarrow> bool" where
  "isEmoji cp \<longleftrightarrow> inEmojiRange cp \<or> cp \<in> set [0x2705, 0x274C, 0x26A0, 0x23F3]"

definition emojiCount :: "jsstring \<Rightarrow> nat" where
  "emojiCount title = length (filter isEmoji (codePoints title))"

definition hasLeadingEmoji :: "jsstring \<Rightarrow> bool" where
  "hasLeadingEmoji title = (case codePoints title of [] \<Rightarrow> False | cp # cps \<Rightarrow> isEmoji cp)"

definition exactlyOneLeadingEmoji :: "jsstring \<Rightarrow> bool" where
  "exactlyOneLeadingEmoji title \<longleftrightarrow> hasLeadingEmoji title \<and> emojiCount title = 1"

section \<open>lib/environment-detector: choosing the notification method\<close>

datatype platform = Darwin | Linux | Win32 | OtherPlatform

text \<open>
  What the detector reads of the running process: the environment variables (a variable
  that is not defined reads as \<open>undefined\<close>), the \<open>isTTY\<close> flags of standard output and
  standard input (\<open>None\<close> for \<open>undefined\<close>), \<open>os.platform()\<close> and the parent's pid.
\<close>

record process =
  env :: "string \<Rightarrow> jsstring option"
  stdoutIsTTY :: "bool option"
  stdinIsTTY :: "bool option"
  osPlatform :: platform
  ppid :: int

datatype deliveryMethod = Alerter | TerminalNotifier | Osascript | NotifySend | Powershell | Console

datatype soundMethod = Afplay | Say | Espeak | PowershellSound | NoSound

record capabilities =
  hasOsascript :: bool
  hasTerminalNotifier :: bool
  hasAlerter :: bool
  hasNotifySend :: bool
  hasAfplay :: bool
  hasSay :: bool
  hasEspeak :: bool

definition isSSHConnection :: "process \<Rightarrow> bool" where
  "isSSHConnection p =
     (if truthy (env p ''SSH_CONNECTION'') \<and> \<not> truthy (env p ''DISPLAY'') then True
      else if truthy (env p ''SSH_CONNECTION'') \<and> truthy (env p ''SSH_TTY'') then True
      else if truthy (env p ''SSH_CLIENT'') then True
      else False)"

definition ciIndicators :: "string list" where
  "ciIndicators =
     [''CI'', ''CONTINUOUS_INTEGRATION'', ''BUILD_NUMBER'', ''JENKINS_URL'', ''GITHUB_ACTIONS'',
      ''GITLAB_CI'', ''CIRCLECI'', ''TRAVIS'', ''APPVEYOR'', ''AZURE_PIPELINES'',
      ''TEAMCITY_VERSION'']"

definition isCIEnvironment :: "process \<Rightarrow> bool" where
  "isCIEnvironment p = list_ex (\<lambda>indicator. truthy (env p indicator)) ciIndicators"

text \<open>Only a flag that is \<open>=== false\<close> counts; the code tests both streams.\<close>

definition isNonTTYEnvironment :: "process \<Rightarrow> bool" where
  "isNonTTYEnvironment p =
     (if stdoutIsTTY p = Some False then True
      else if stdinIsTTY p = Some False then True
      else False)"

definition shouldForceConsole :: "process \<Rightarrow> bool" where
  "shouldForceConsole p =
     (if isSSHConnection p then True
      else if isCIEnvironment p then True
      else if isNonTTYEnvironment p then True
      else False)"

definition getBestNotificationMethod :: "process \<Rightarrow> capabilities \<Rightarrow> deliveryMethod" where
  "getBestNotificationMethod p caps =
     (if env p ''CAT_CCNOTIFY_FORCE_CONSOLE'' = Some (js ''true'') then Console
      else if shouldForceConsole p then Console
      else if osPlatform p = Darwin \<and> hasAlerter caps then Alerter
      else if osPlatform p = Darwin \<and> hasTerminalNotifier caps then TerminalNotifier
      else if osPlatform p = Darwin \<and> hasOsascript caps then Osascript
      else if osPlatform p = Linux \<and> hasNotifySend caps then NotifySend
      else if osPlatform p = Win32 then Powershell
      else Console)"

definition getBestSoundMethod :: "process \<Rightarrow> capabilities \<Rightarrow> soundMethod" where
  "getBestSoundMethod p caps =
     (if osPlatform p = Darwin \<and> hasAfplay caps then Afplay
      else if osPlatform p = Darwin \<and> hasSay caps then Say
      else if osPlatform p = Linux \<and> hasEspeak caps then Espeak
      else if osPlatform p = Win32 then PowershellSound
      else NoSound)"

section \<open>The operating system\<close>

text \<open>
  The program reaches the operating system through \<open>execSync\<close> and \<open>existsSync\<close>.
  \<open>execSync os command\<close> is \<open>None\<close> when the call throws (the command is missing,
  exits with a non-zero code or runs into its timeout) and the standard output
  otherwise. The operating system is a snapshot: within one run the same command has the
  same outcome.
\<close>

record os =
  execSync :: "jsstring \<Rightarrow> jsstring option"
  soundFileExists :: bool

text \<open>
  The exceptions of the program: a failed \<open>execSync\<close>, a method call on \<open>undefined\<close>,
  an identifier that is not defined, and the \<open>Error\<close> a delivery function throws in
  place of the failure of its command.
\<close>

datatype exn = ExecError | TypeError | ReferenceError | NotifierError deliveryMethod

text \<open>
  Numbers. The program handles process ids only; they are modelled as unbounded integers
  with \<open>NaN\<close> beside them. A JavaScript number is a double: it agrees with the
  integer up to \<open>2^53\<close>, and beyond that \<open>parseInt\<close> rounds where the model does not,
  so for such a field of the \<open>ps\<close> output the model's walk would go on to another pid
  than the program's. Process ids are far below that bound.
\<close>

datatype jsnum = Num int | NaN

fun digits :: "nat \<Rightarrow> jsstring" where
  "digits n = (if n < 10 then [0x30 + n] else digits (n div 10) @ [0x30 + n mod 10])"

declare digits.simps [simp del]

definition numberToString :: "int \<Rightarrow> jsstring" where
  "numberToString n = (if n < 0 then js ''-'' @ digits (nat (- n)) else digits (nat n))"

text \<open>The white space and line terminators of \<open>trim\<close>, \<open>\s\<close> and \<open>parseInt\<close>.\<close>

definition isWhiteSpace :: "nat \<Rightarrow> bool" where
  "isWhiteSpace c \<longleftrightarrow>
     c \<in> set [0x09, 0x0A, 0x0B, 0x0C, 0x0D, 0x20, 0xA0, 0x1680, 0x2028, 0x2029, 0x202F,
                0x205F, 0x3000, 0xFEFF]
     \<or> (0x2000 \<le> c \<and> c \<le> 0x200A)"

definition trim :: "jsstring \<Rightarrow> jsstring" where
  "trim s = rev (dropWhile isWhiteSpace (rev (dropWhile isWhiteSpace s)))"

text \<open>\<open>s.split(sep)\<close> for a separator of one code unit; the result is never empty.\<close>

fun splitOn :: "nat \<Rightarrow> jsstring \<Rightarrow> jsstring \<Rightarrow> jsstring list" where
  "splitOn sep piece [] = [piece]"
| "splitOn sep piece (c # cs) =
     (if c = sep then piece # splitOn sep [] cs else splitOn sep (piece @ [c]) cs)"

definition split :: "nat \<Rightarrow> jsstring \<Rightarrow> jsstring list" where
  "split sep s = splitOn sep [] s"

text \<open>
  \<open>s.split(/\s+/)\<close>: the pieces between the maximal runs of white space. \<open>inRun\<close> says
  that the piece before the current run has been emitted already.
\<close>

fun splitRuns :: "bool \<Rightarrow> jsstring \<Rightarrow> jsstring \<Rightarrow> jsstring list" where
  "splitRuns inRun piece [] = [piece]"
| "splitRuns inRun piece (c # cs) =
     (if isWhiteSpace c then
        (if inRun then splitRuns True piece cs else piece # splitRuns True [] cs)
      else splitRuns False (piece @ [c]) cs)"

definition splitWhiteSpace :: "jsstring \<Rightarrow> jsstring list" where
  "splitWhiteSpace s = splitRuns False [] s"

text \<open>\<open>parts[i]\<close>: \<open>undefined\<close> beyond the end of the array.\<close>

definition element :: "'a list \<Rightarrow> nat \<Rightarrow> 'a option" where
  "element xs i = (if i < length xs then Some (xs ! i) else None)"

text \<open>\<open>parts.join(' ')\<close>.\<close>

fun joinWith :: "jsstring \<Rightarrow> jsstring list \<Rightarrow> jsstring" where
  "joinWith sep [] = []"
| "joinWith sep [x] = x"
| "joinWith sep (x # y # ys) = x @ sep @ joinWith sep (y # ys)"

text \<open>
  \<open>parseInt(v)\<close> with no radix: leading white space is skipped, a sign is read, the
  prefix \<open>0x\<close> selects radix 16, and the longest run of digits is the value; \<open>NaN\<close>
  when there is no digit, and for \<open>undefined\<close>.
\<close>

definition digitValue :: "nat \<Rightarrow> nat option" where
  "digitValue c =
     (if 0x30 \<le> c \<and> c \<le> 0x39 then Some (c - 0x30)
      else if 0x61 \<le> c \<and> c \<le> 0x66 then Some (c - 0x61 + 10)
      else if 0x41 \<le> c \<and> c \<le> 0x46 then Some (c - 0x41 + 10)
      else None)"

definition isDigitOf :: "nat \<Rightarrow> nat \<Rightarrow> bool" where
  "isDigitOf radix c = (case digitValue c of None \<Rightarrow> False | Some d \<Rightarrow> d < radix)"

definition digitsValue :: "nat \<Rightarrow> jsstring \<Rightarrow> nat" where
  "digitsValue radix ds =
     foldl (\<lambda>acc c. acc * radix + (case digitValue c of None \<Rightarrow> 0 | Some d \<Rightarrow> d)) 0 ds"

definition hasHexPrefix :: "jsstring \<Rightarrow> bool" where
  "hasHexPrefix s = (startsWith (js ''0x'') s \<or> startsWith (js ''0X'') s)"

definition parseInt :: "jsstring option \<Rightarrow> jsnum" where
  "parseInt v =
     (case v of
        None \<Rightarrow> NaN
      | Some str \<Rightarrow>
          (let s = dropWhile isWhiteSpace str;
               negative = startsWith (js ''-'') s;
               unsigned = (if s \<noteq> [] \<and> (startsWith (js ''-'') s \<or> startsWith (js ''+'') s)
                           then drop 1 s else s);
               radix = (if hasHexPrefix unsigned then 16 else 10);
               body = (if hasHexPrefix unsigned then drop 2 unsigned else unsigned);
               ds = takeWhile (isDigitOf radix) body
           in if ds = [] then NaN
              else if negative then Num (- int (digitsValue radix ds))
              else Num (int (digitsValue radix ds))))"

section \<open>Parent application detection\<close>

text \<open>
  The application records of both detectors. A key the source leaves out of an object
  literal is \<open>None\<close>; \<open>bundleId: null\<close> is \<open>None\<close> as well.
\<close>

record appInfo =
  appName :: jsstring
  bundleId :: "jsstring option"
  appType :: jsstring
  supportsTabFocus :: "bool option"
  appPath :: "jsstring option"
  appPid :: "jsnum option"

text \<open>The second line of the \<open>ps\<close> output, taken apart.\<close>

record processInfo =
  infoPid :: jsnum
  infoPpid :: jsnum
  infoCommand :: "jsstring option"
  infoArgs :: jsstring

definition psCommand :: "int \<Rightarrow> jsstring" where
  "psCommand pid = js ''ps -p '' @ numberToString pid @ js '' -o pid,ppid,comm,args''"

definition parseProcessLine :: "jsstring \<Rightarrow> processInfo" where
  "parseProcessLine line =
     (let parts = splitWhiteSpace (trim line)
      in \<lparr>infoPid = parseInt (element parts 0),
          infoPpid = parseInt (element parts 1),
          infoCommand = element parts 2,
          infoArgs = joinWith (js '' '') (drop 3 parts)\<rparr>)"

definition maxLevels :: nat where
  "maxLevels = 15"

subsection \<open>EnvironmentDetector\<close>

text \<open>
  The fields of \<open>terminalInfo\<close> that the program reads again (the terminal size is
  left out), and the detector object as its constructor fills it.
\<close>

record terminalInfo =
  termName :: jsstring
  colorTerm :: "jsstring option"
  termProgram :: "jsstring option"
  supportsColor :: bool
  isITerm2 :: bool
  isVSCode :: bool
  isWindows :: bool
  isSandbox :: bool

record notificationCapabilities =
  tools :: capabilities
  bestNotificationMethod :: deliveryMethod
  bestSoundMethod :: soundMethod

record environmentDetector =
  detectorPlatform :: platform
  detectedTerminal :: terminalInfo
  detectedCapabilities :: notificationCapabilities

definition detectTerminalEnvironment :: "process \<Rightarrow> terminalInfo" where
  "detectTerminalEnvironment p =
     \<lparr>termName = (case env p ''TERM'' of None \<Rightarrow> js ''unknown''
                  | Some t \<Rightarrow> if t = [] then js ''unknown'' else t),
      colorTerm = (if truthy (env p ''COLORTERM'') then env p ''COLORTERM'' else None),
      termProgram = (if truthy (env p ''TERM_PROGRAM'') then env p ''TERM_PROGRAM'' else None),
      supportsColor =
        (if truthy (env p ''NO_COLOR'') then False
         else if truthy (env p ''COLORTERM'') then True
         else (case env p ''TERM'' of None \<Rightarrow> False
               | Some t \<Rightarrow> includesWord t (js ''color''))),
      isITerm2 = (env p ''TERM_PROGRAM'' = Some (js ''iTerm.app'')),
      isVSCode = (env p ''TERM_PROGRAM'' = Some (js ''vscode'')),
      isWindows = (osPlatform p = Win32),
      isSandbox = truthy (env p ''SANDBOX'')\<rparr>"

text \<open>\<open>commandExists\<close>: the lookup command runs without throwing.\<close>

definition commandExists :: "os \<Rightarrow> process \<Rightarrow> jsstring \<Rightarrow> bool" where
  "commandExists w p cmd =
     (case execSync w (if osPlatform p = Win32 then js ''where.exe '' @ cmd
                       else js ''command -v '' @ cmd) of
        None \<Rightarrow> False
      | Some found \<Rightarrow> True)"

definition detectNotificationCapabilities :: "os \<Rightarrow> process \<Rightarrow> notificationCapabilities" where
  "detectNotificationCapabilities w p =
     (let caps =
        \<lparr>hasOsascript = commandExists w p (js ''osascript''),
         hasTerminalNotifier = commandExists w p (js ''terminal-notifier''),
         hasAlerter = commandExists w p (js ''alerter''),
         hasNotifySend = commandExists w p (js ''notify-send''),
         hasAfplay = commandExists w p (js ''afplay''),
         hasSay = commandExists w p (js ''say''),
         hasEspeak = commandExists w p (js ''espeak'')\<rparr>
      in \<lparr>tools = caps,
          bestNotificationMethod = getBestNotificationMethod p caps,
          bestSoundMethod = getBestSoundMethod p caps\<rparr>)"

definition newEnvironmentDetector :: "os \<Rightarrow> process \<Rightarrow> environmentDetector" where
  "newEnvironmentDetector w p =
     \<lparr>detectorPlatform = osPlatform p,
      detectedTerminal = detectTerminalEnvironment p,
      detectedCapabilities = detectNotificationCapabilities w p\<rparr>"

text \<open>
  \<open>identifyTerminalApp\<close>. \<open>info.command\<close> is \<open>undefined\<close> when the line has fewer than
  three fields; calling \<open>includes\<close> on it raises a TypeError, which happens only when
  the test for \<open>Code.app\<close> before it is false.
\<close>

definition identifyTerminalApp :: "processInfo \<Rightarrow> exn + appInfo option" where
  "identifyTerminalApp info =
     (if includesWord (infoArgs info) (js ''iTerm.app'') then
        Inr (Some \<lparr>appName = js ''iTerm2'', bundleId = Some (js ''com.googlecode.iterm2''),
                   appType = js ''terminal'', supportsTabFocus = Some False,
                   appPath = None, appPid = None\<rparr>)
      else if includesWord (infoArgs info) (js ''Code.app'') then
        Inr (Some \<lparr>appName = js ''Visual Studio Code'', bundleId = Some (js ''com.microsoft.VSCode''),
                   appType = js ''editor'', supportsTabFocus = Some True,
                   appPath = None, appPid = None\<rparr>)
      else
        (case infoCommand info of
           None \<Rightarrow> Inl TypeError
         | Some cmd \<Rightarrow>
             if includesWord cmd (js ''code'') then
               Inr (Some \<lparr>appName = js ''Visual Studio Code'',
                          bundleId = Some (js ''com.microsoft.VSCode''),
                          appType = js ''editor'', supportsTabFocus = Some True,
                          appPath = None, appPid = None\<rparr>)
             else if includesWord (infoArgs info) (js ''Terminal.app'') then
               Inr (Some \<lparr>appName = js ''Terminal'', bundleId = Some (js ''com.apple.Terminal''),
                          appType = js ''terminal'', supportsTabFocus = Some False,
                          appPath = None, appPid = None\<rparr>)
             else Inr None))"

definition getFallbackApp :: "environmentDetector \<Rightarrow> appInfo" where
  "getFallbackApp this =
     (if isITerm2 (detectedTerminal this) then
        \<lparr>appName = js ''iTerm2'', bundleId = Some (js ''com.googlecode.iterm2''),
         appType = js ''terminal'', supportsTabFocus = Some False,
         appPath = None, appPid = None\<rparr>
      else if isVSCode (detectedTerminal this) then
        \<lparr>appName = js ''Visual Studio Code'', bundleId = Some (js ''com.microsoft.VSCode''),
         appType = js ''editor'', supportsTabFocus = Some True,
         appPath = None, appPid = None\<rparr>
      else
        \<lparr>appName = js ''Unknown Terminal'', bundleId = None,
         appType = js ''unknown'', supportsTabFocus = Some False,
         appPath = None, appPid = None\<rparr>)"

text \<open>
  The body of the \<open>try\<close> block: the \<open>while\<close> loop. It returns what the block does
  (an exception, the application found, or \<open>None\<close> when the loop ends without one)
  and the pids handed to \<open>ps\<close>, in order.
\<close>

function walkAncestors :: "os \<Rightarrow> jsnum \<Rightarrow> nat \<Rightarrow> (exn + appInfo option) \<times> int list" where
  "walkAncestors w currentPid level =
     (case currentPid of
        NaN \<Rightarrow> (Inr None, [])
      | Num pid \<Rightarrow>
          if pid \<noteq> 0 \<and> pid > 1 \<and> level < maxLevels then
            (case execSync w (psCommand pid) of
               None \<Rightarrow> (Inl ExecError, [pid])
             | Some result \<Rightarrow>
                 (let lines = split 0x0A (trim result) in
                  if length lines < 2 then (Inr None, [pid])
                  else
                    (case identifyTerminalApp (parseProcessLine (lines ! 1)) of
                       Inl e \<Rightarrow> (Inl e, [pid])
                     | Inr (Some app) \<Rightarrow> (Inr (Some app), [pid])
                     | Inr None \<Rightarrow>
                         apsnd ((#) pid)
                           (walkAncestors w (infoPpid (parseProcessLine (lines ! 1)))
                              (level + 1)))))
          else (Inr None, []))"
  by pat_completeness auto
termination
  by (relation "measure (\<lambda>(w, currentPid, level). maxLevels - level)") auto

declare walkAncestors.simps [simp del]

text \<open>
  \<open>detectParentApp\<close>: the \<open>catch\<close> swallows every exception of the walk, and every way
  out of the \<open>try\<close> block other than the \<open>return\<close> of a match ends in
  \<open>getFallbackApp\<close>. The result type keeps room for an exception reaching the caller.
\<close>

definition detectParentApp ::
  "os \<Rightarrow> process \<Rightarrow> environmentDetector \<Rightarrow> (exn + appInfo) \<times> int list" where
  "detectParentApp w p this =
     (case walkAncestors w (Num (ppid p)) 0 of
        (Inr (Some app), probed) \<Rightarrow> (Inr app, probed)
      | (Inr None, probed) \<Rightarrow> (Inr (getFallbackApp this), probed)
      | (Inl e, probed) \<Rightarrow> (Inr (getFallbackApp this), probed))"

subsection \<open>SimpleParentDetector\<close>














section \<open>lib/adaptive-notifier: the dispatcher\<close>

record adaptiveNotifier =
  detector :: environmentDetector
  soundPath :: jsstring

text \<open>
  The object a delivery resolves to; \<open>clicked\<close> and \<open>warning\<close> are \<open>None\<close> where the
  source leaves the key out.
\<close>

record deliveryResult =
  success :: bool
  methodUsed :: deliveryMethod
  clicked :: "bool option"
  warning :: "jsstring option"

text \<open>\<open>args.map(arg => `"${arg}"`).join(' ')\<close>.\<close>

definition quoteArgs :: "jsstring list \<Rightarrow> jsstring" where
  "quoteArgs arguments = joinWith (js '' '') (map (\<lambda>arg. [0x22] @ arg @ [0x22]) arguments)"

text \<open>
  Each function below returns its result together with the external commands it ran, in
  order. \<open>playSound\<close> and \<open>focusParentApp\<close> return nothing and catch the failure of
  their command themselves, so only the commands are left of them. Console logging is
  not modelled.
\<close>

definition playSound :: "os \<Rightarrow> adaptiveNotifier \<Rightarrow> jsstring list" where
  "playSound w this =
     (if \<not> soundFileExists w then []
      else
        (case bestSoundMethod (detectedCapabilities (detector this)) of
           Afplay \<Rightarrow> [js ''afplay '' @ [0x22] @ soundPath this @ [0x22]]
         | Say \<Rightarrow> [js ''say '' @ [0x22] @ js ''meow'' @ [0x22]]
         | Espeak \<Rightarrow> [js ''espeak '' @ [0x22] @ js ''meow'' @ [0x22]]
         | PowershellSound \<Rightarrow> []
         | NoSound \<Rightarrow> []))"

definition focusParentApp :: "os \<Rightarrow> adaptiveNotifier \<Rightarrow> appInfo \<Rightarrow> jsstring list" where
  "focusParentApp w this parentApp =
     (case bundleId parentApp of
        None \<Rightarrow> []
      | Some bundle \<Rightarrow>
          if bundle = [] then []
          else if detectorPlatform (detector this) = Darwin then
            [js ''osascript -e '' @ [0x27] @ js ''tell application id '' @ [0x22] @ bundle @ [0x22]
               @ js '' to activate'' @ [0x27]]
          else [])"

definition alerterArgs :: "appInfo \<Rightarrow> jsstring \<Rightarrow> jsstring \<Rightarrow> jsstring list" where
  "alerterArgs parentApp title message =
     [js ''-title'', title, js ''-message'', message, js ''-timeout'', js ''10'']
     @ (if truthy (bundleId parentApp) then [js ''-actions'', js ''Focus Terminal''] else [])"

text \<open>
  \<open>sendWithAlerter\<close> builds the arguments and the command line it logs, and returns a
  promise whose executor starts with \<open>require('child_process')\<close>. The file is an ES
  module (it begins with \<open>import\<close> declarations), where the identifier \<open>require\<close> is
  not defined: the executor raises a ReferenceError at that statement and the promise is
  rejected. The rest of the executor (\<open>spawn\<close>, the handler of \<open>close\<close> that would
  resolve with \<open>success: code === 0\<close> and call \<open>focusParentApp\<close>, and \<open>playSound\<close>)
  is never reached, and no command is run.
\<close>

definition sendWithAlerter ::
  "os \<Rightarrow> adaptiveNotifier \<Rightarrow> jsstring \<Rightarrow> jsstring \<Rightarrow> appInfo
     \<Rightarrow> (exn + deliveryResult) \<times> jsstring list" where
  "sendWithAlerter w this title message parentApp =
     (let arguments = alerterArgs parentApp title message;
          command = js ''alerter '' @ quoteArgs arguments
      in (Inl ReferenceError, []))"

definition terminalNotifierCommand :: "appInfo \<Rightarrow> jsstring \<Rightarrow> jsstring \<Rightarrow> jsstring" where
  "terminalNotifierCommand parentApp title message =
     js ''terminal-notifier '' @
     quoteArgs
       ([js ''-title'', title, js ''-message'', message, js ''-timeout'', js ''10'']
        @ (case bundleId parentApp of
             None \<Rightarrow> []
           | Some bundle \<Rightarrow> if bundle = [] then [] else [js ''-activate'', bundle]))"

definition sendWithTerminalNotifier ::
  "os \<Rightarrow> adaptiveNotifier \<Rightarrow> jsstring \<Rightarrow> jsstring \<Rightarrow> appInfo
     \<Rightarrow> (exn + deliveryResult) \<times> jsstring list" where
  "sendWithTerminalNotifier w this title message parentApp =
     (let command = terminalNotifierCommand parentApp title message in
      case execSync w command of
        None \<Rightarrow> (Inl (NotifierError TerminalNotifier), [command])
      | Some written \<Rightarrow>
          (Inr \<lparr>success = True, methodUsed = TerminalNotifier, clicked = None, warning = None\<rparr>,
           [command] @ playSound w this))"

definition osascriptCommand :: "jsstring \<Rightarrow> jsstring \<Rightarrow> jsstring" where
  "osascriptCommand title message =
     js ''osascript -e '' @ [0x27] @ js ''display notification '' @ [0x22] @ message @ [0x22]
     @ js '' with title '' @ [0x22] @ title @ [0x22] @ [0x27]"

definition sendWithOsascript ::
  "os \<Rightarrow> adaptiveNotifier \<Rightarrow> jsstring \<Rightarrow> jsstring \<Rightarrow> (exn + deliveryResult) \<times> jsstring list" where
  "sendWithOsascript w this title message =
     (let command = osascriptCommand title message in
      case execSync w command of
        None \<Rightarrow> (Inl (NotifierError Osascript), [command])
      | Some written \<Rightarrow>
          (Inr \<lparr>success = True, methodUsed = Osascript, clicked = None,
                warning = Some (js ''Clicking notification will open Script Editor'')\<rparr>,
           [command] @ playSound w this))"

definition notifySendCommand :: "jsstring \<Rightarrow> jsstring \<Rightarrow> jsstring" where
  "notifySendCommand title message =
     js ''notify-send '' @ quoteArgs [js ''-t'', js ''10000'', title, message]"

definition sendWithNotifySend ::
  "os \<Rightarrow> adaptiveNotifier \<Rightarrow> jsstring \<Rightarrow> jsstring \<Rightarrow> (exn + deliveryResult) \<times> jsstring list" where
  "sendWithNotifySend w this title message =
     (let command = notifySendCommand title message in
      case execSync w command of
        None \<Rightarrow> (Inl (NotifierError NotifySend), [command])
      | Some written \<Rightarrow>
          (Inr \<lparr>success = True, methodUsed = NotifySend, clicked = None, warning = None\<rparr>,
           [command] @ playSound w this))"

definition powershellScript :: "jsstring \<Rightarrow> jsstring \<Rightarrow> jsstring" where
  "powershellScript title message =
     [0x0A] @ js ''      [Windows.UI.Notifications.ToastNotificationManager, Windows.UI.Notifications, ContentType = WindowsRuntime] | Out-Null'' @
     [0x0A] @ js ''      $template = [Windows.UI.Notifications.ToastNotificationManager]::GetTemplateContent([Windows.UI.Notifications.ToastTemplateType]::ToastText02)'' @
     [0x0A] @ js ''      $xml = New-Object System.Xml.XmlDocument'' @
     [0x0A] @ js ''      $xml.LoadXml($template.GetXml())'' @
     [0x0A] @ js ''      $xml.GetElementsByTagName('' @ [0x22] @ js ''text'' @ [0x22] @ js '')[0].AppendChild($xml.CreateTextNode('' @ [0x22] @ title @ [0x22] @ js '')) | Out-Null'' @
     [0x0A] @ js ''      $xml.GetElementsByTagName('' @ [0x22] @ js ''text'' @ [0x22] @ js '')[1].AppendChild($xml.CreateTextNode('' @ [0x22] @ message @ [0x22] @ js '')) | Out-Null'' @
     [0x0A] @ js ''      $toast = [Windows.UI.Notifications.ToastNotification]::new($xml)'' @
     [0x0A] @ js ''      [Windows.UI.Notifications.ToastNotificationManager]::CreateToastNotifier('' @ [0x22] @ js ''PowerShell'' @ [0x22] @ js '').Show($toast)'' @
     [0x0A] @ js ''    ''"

definition powershellCommand :: "jsstring \<Rightarrow> jsstring \<Rightarrow> jsstring" where
  "powershellCommand title message =
     js ''powershell -Command '' @ [0x22] @ powershellScript title message @ [0x22]"

definition sendWithPowerShell ::
  "os \<Rightarrow> adaptiveNotifier \<Rightarrow> jsstring \<Rightarrow> jsstring \<Rightarrow> (exn + deliveryResult) \<times> jsstring list" where
  "sendWithPowerShell w this title message =
     (let command = powershellCommand title message in
      case execSync w command of
        None \<Rightarrow> (Inl (NotifierError Powershell), [command])
      | Some written \<Rightarrow>
          (Inr \<lparr>success = True, methodUsed = Powershell, clicked = None, warning = None\<rparr>,
           [command]))"

text \<open>
  \<open>sendWithConsole\<close> formats the two lines in the process and writes them to standard
  output; it runs no notifier command and always resolves.
\<close>

definition sendWithConsole ::
  "os \<Rightarrow> adaptiveNotifier \<Rightarrow> jsstring \<Rightarrow> jsstring \<Rightarrow> (exn + deliveryResult) \<times> jsstring list" where
  "sendWithConsole w this title message =
     (Inr \<lparr>success = True, methodUsed = Console, clicked = None, warning = None\<rparr>,
      playSound w this)"

text \<open>The \<open>switch\<close> inside the \<open>try\<close> block.\<close>

definition sendWithMethod ::
  "os \<Rightarrow> adaptiveNotifier \<Rightarrow> deliveryMethod \<Rightarrow> jsstring \<Rightarrow> jsstring \<Rightarrow> appInfo
     \<Rightarrow> (exn + deliveryResult) \<times> jsstring list" where
  "sendWithMethod w this chosen title message parentApp =
     (case chosen of
        Alerter \<Rightarrow> sendWithAlerter w this title message parentApp
      | TerminalNotifier \<Rightarrow> sendWithTerminalNotifier w this title message parentApp
      | Osascript \<Rightarrow> sendWithOsascript w this title message
      | NotifySend \<Rightarrow> sendWithNotifySend w this title message
      | Powershell \<Rightarrow> sendWithPowerShell w this title message
      | Console \<Rightarrow> sendWithConsole w this title message)"

text \<open>
  \<open>sendNotification\<close>. The parent application is detected first. In iTerm2 with the
  method \<open>osascript\<close> the function returns the AppleScript delivery at once, outside
  the \<open>try\<close> block. Otherwise the \<open>switch\<close> runs inside the \<open>try\<close> block, and the
  \<open>catch\<close> delivers through the console.
\<close>

definition sendNotification ::
  "os \<Rightarrow> process \<Rightarrow> adaptiveNotifier \<Rightarrow> jsstring \<Rightarrow> jsstring
     \<Rightarrow> (exn + deliveryResult) \<times> jsstring list" where
  "sendNotification w p this title message =
     (case detectParentApp w p (detector this) of
        (Inl e, probed) \<Rightarrow> (Inl e, map psCommand probed)
      | (Inr parentApp, probed) \<Rightarrow>
          (let chosen = bestNotificationMethod (detectedCapabilities (detector this)) in
           if isITerm2 (detectedTerminal (detector this)) \<and> chosen = Osascript then
             apsnd ((@) (map psCommand probed)) (sendWithOsascript w this title message)
           else
             (case sendWithMethod w this chosen title message parentApp of
                (Inr delivered, commands) \<Rightarrow> (Inr delivered, map psCommand probed @ commands)
              | (Inl e, commands) \<Rightarrow>
                  apsnd ((@) (map psCommand probed @ commands))
                    (sendWithConsole w this title message))))"

text \<open>
  \<open>new AdaptiveNotifier()\<close>: the detector singleton and the path of the sound file
  under the directory the package is installed in.
\<close>

definition newAdaptiveNotifier :: "os \<Rightarrow> process \<Rightarrow> jsstring \<Rightarrow> adaptiveNotifier" where
  "newAdaptiveNotifier w p packageDir =
     \<lparr>detector = newEnvironmentDetector w p,
      soundPath = packageDir @ js ''/sounds/cat-meow-1-fx-323465.mp3''\<rparr>"

text \<open>What \<open>sendWithConsole\<close> resolves to.\<close>

definition consoleResult :: deliveryResult where
  "consoleResult = \<lparr>success = True, methodUsed = Console, clicked = None, warning = None\<rparr>"

section \<open>Example inputs\<close>

text \<open>
  Concrete processes and capability sets, after the repository's own tests of the
  detector: a Mac with every notifier tool installed, an SSH session without display
  forwarding, a process with the override variable, a terminal whose standard input is
  a pipe, and plain sessions in Terminal and in iTerm2.
\<close>

definition allNotifiers :: capabilities where
  "allNotifiers =
     \<lparr>hasOsascript = True, hasTerminalNotifier = True, hasAlerter = True,
      hasNotifySend = False, hasAfplay = True, hasSay = False, hasEspeak = False\<rparr>"

definition sshProcess :: process where
  "sshProcess =
     \<lparr>env = (\<lambda>name. if name = ''SSH_CONNECTION''
                       then Some (js ''192.168.1.100 54321 192.168.1.1 22'') else None),
      stdoutIsTTY = Some True, stdinIsTTY = Some True, osPlatform = Darwin, ppid = 4242\<rparr>"

definition forcedConsoleProcess :: process where
  "forcedConsoleProcess =
     \<lparr>env = (\<lambda>name. if name = ''CAT_CCNOTIFY_FORCE_CONSOLE'' then Some (js ''true'') else None),
      stdoutIsTTY = Some True, stdinIsTTY = Some True, osPlatform = Darwin, ppid = 4242\<rparr>"

definition pipedStdinProcess :: process where
  "pipedStdinProcess =
     \<lparr>env = (\<lambda>name. None),
      stdoutIsTTY = Some True, stdinIsTTY = Some False, osPlatform = Darwin, ppid = 4242\<rparr>"

definition macProcess :: process where
  "macProcess =
     \<lparr>env = (\<lambda>name. if name = ''TERM_PROGRAM'' then Some (js ''Apple_Terminal'') else None),
      stdoutIsTTY = Some True, stdinIsTTY = Some True, osPlatform = Darwin, ppid = 4242\<rparr>"

definition itermProcess :: process where
  "itermProcess =
     \<lparr>env = (\<lambda>name. if name = ''TERM_PROGRAM'' then Some (js ''iTerm.app'') else None),
      stdoutIsTTY = Some True, stdinIsTTY = Some True, osPlatform = Darwin, ppid = 4242\<rparr>"

text \<open>
  Operating systems: one where only \<open>alerter\<close> is installed, one where only
  \<open>terminal-notifier\<close> is installed and its run fails, one where only \<open>osascript\<close>
  is installed and its run fails, and one where every command fails. In all of them
  \<open>ps\<close> fails, so the parent application is the fallback record.
\<close>

definition alerterInstalled :: os where
  "alerterInstalled =
     \<lparr>execSync = (\<lambda>command. if command = js ''command -v alerter''
                              then Some (js ''/usr/local/bin/alerter'') else None),
      soundFileExists = False\<rparr>"

definition terminalNotifierFails :: os where
  "terminalNotifierFails =
     \<lparr>execSync = (\<lambda>command. if command = js ''command -v terminal-notifier''
                              then Some (js ''/usr/local/bin/terminal-notifier'') else None),
      soundFileExists = False\<rparr>"

definition osascriptFails :: os where
  "osascriptFails =
     \<lparr>execSync = (\<lambda>command. if command = js ''command -v osascript''
                              then Some (js ''/usr/bin/osascript'') else None),
      soundFileExists = False\<rparr>"


text \<open>
  A process table in which the hook's parent is a shell and the shell's parent is
  iTerm2.
\<close>

definition shellPsOutput :: jsstring where
  "shellPsOutput =
     js ''  PID  PPID COMM             ARGS'' @ [0x0A]
     @ js '' 4242   501 -zsh             -zsh'' @ [0x0A]"

definition itermPsOutput :: jsstring where
  "itermPsOutput =
     js ''  PID  PPID COMM             ARGS'' @ [0x0A]
     @ js ''  501     1 iTerm2           /Applications/iTerm.app/Contents/MacOS/iTerm2'' @ [0x0A]"

definition itermAncestry :: os where
  "itermAncestry =
     \<lparr>execSync =
        (\<lambda>command.
           if command = js ''ps -p 4242 -o pid,ppid,comm,args'' then Some shellPsOutput
           else if command = js ''ps -p 501 -o pid,ppid,comm,args'' then Some itermPsOutput
           else None),
      soundFileExists = False\<rparr>"



text \<open>
  Titles that carry an emoji of their own: "Launch" followed by the rocket (U+1F680),
  the rocket followed by "Launch", and the check mark (U+2705) followed by "Done".
\<close>

definition rocketTitle :: jsstring where
  "rocketTitle = js ''Launch '' @ [0xD83D, 0xDE80]"

definition rocketFirstTitle :: jsstring where
  "rocketFirstTitle = [0xD83D, 0xDE80] @ js '' Launch''"

definition checkedTitle :: jsstring where
  "checkedTitle = [0x2705] @ js '' Done''"

section \<open>Properties of sanitizeNotificationContent\<close>

lemma length_removeControlChars: "length (removeControlChars x) \<le> length x"
  by (simp add: removeControlChars_def)

lemma removeControlChars_idem: "removeControlChars (removeControlChars x) = removeControlChars x"
  by (simp add: removeControlChars_def)

lemma removeControlChars_append:
  "removeControlChars (xs @ ys) = removeControlChars xs @ removeControlChars ys"
  by (simp add: removeControlChars_def)

lemma removeControlChars_take:
  "removeControlChars (take n (removeControlChars x)) = take n (removeControlChars x)"
proof -
  have "\<forall>c \<in> set (take n (removeControlChars x)). \<not> isControlChar c"
    using set_take_subset [of n "removeControlChars x"]
    by (auto simp: removeControlChars_def)
  then show ?thesis
    by (simp add: removeControlChars_def [of "take n (removeControlChars x)"])
qed

lemma removeControlChars_ellipsis: "removeControlChars (js ''...'') = js ''...''"
  by (simp add: removeControlChars_def js_def isControlChar_def)

lemma length_ellipsis: "length (js ''...'') = 3"
  by (simp add: js_def)

text \<open>
  C3, as stated: for every string x, the sanitized text is no longer than x. This fails:
  a string of 1001 letters \<open>a\<close> has no control character, is longer than the bound,
  and is cut to 1000 code units plus the three of the ellipsis, 1003 in all.
\<close>

theorem sanitize_lengthens_counterexample:
  "\<not> length (sanitizeNotificationContent (JSString (replicate 1001 97)))
       \<le> length (replicate 1001 (97::nat))"
  by (simp add: removeControlChars_def isControlChar_def maxLength_def js_def)

text \<open>
  C3, amended: for every string x the sanitized text is at most \<open>max (length x) 1003\<close>
  code units long, and it is no longer than x whenever the text left after removing the
  control characters is within the 1000 bound (nothing is cut) or x has at least 1003
  code units. The unit test of the repository expects the length 1003 for a cut text.
\<close>

theorem sanitize_length_bound:
  "length (sanitizeNotificationContent (JSString x)) \<le> max (length x) 1003 \<and>
   (length (removeControlChars x) \<le> 1000 \<or> 1003 \<le> length x \<longrightarrow>
      length (sanitizeNotificationContent (JSString x)) \<le> length x)"
  using length_removeControlChars [of x]
  by (auto simp: Let_def maxLength_def length_ellipsis)

theorem sanitize_length_bound_witness:
  "length (removeControlChars (js ''meow'' @ [7])) \<le> 1000 \<and>
   length (sanitizeNotificationContent (JSString (js ''meow'' @ [7]))) \<le> length (js ''meow'' @ [7]) \<and>
   sanitizeNotificationContent (JSString (js ''meow'' @ [7])) = js ''meow''"
  using sanitize_length_bound [of "js ''meow'' @ [7]"]
  by (simp add: removeControlChars_def isControlChar_def maxLength_def js_def)

text \<open>
  C4: sanitization is idempotent. For every string x, sanitizing the sanitized text gives
  the sanitized text again. When x was cut, the result has 1003 code units and is cut
  again at 1000, which removes the ellipsis of the first pass and appends it anew.
\<close>

theorem sanitize_idempotent:
  "sanitizeNotificationContent (JSString (sanitizeNotificationContent (JSString x))) =
   sanitizeNotificationContent (JSString x)"
proof (cases "length (removeControlChars x) > maxLength")
  case False
  then show ?thesis
    by (simp add: Let_def removeControlChars_idem)
next
  case True
  let ?r = "take maxLength (removeControlChars x) @ js ''...''"
  have r: "sanitizeNotificationContent (JSString x) = ?r"
    using True by (simp add: Let_def)
  have clean: "removeControlChars ?r = ?r"
    by (simp add: removeControlChars_append removeControlChars_take removeControlChars_ellipsis)
  have len: "length ?r > maxLength"
    using True by (simp add: length_ellipsis)
  have cut: "take maxLength ?r = take maxLength (removeControlChars x)"
    using True by simp
  show ?thesis
    unfolding r using clean len cut by (simp add: Let_def)
qed

section \<open>Properties of the content classifier\<close>

lemmas pattern_lists =
  errorPatterns_def warningPatterns_def successPatterns_def progressPatterns_def
  gitPatterns_def buildPatterns_def testPatterns_def deployPatterns_def npmPatterns_def
  filePatterns_def

lemma content_build_complete:
  "toLowerCase (js ''Build Complete'' @ js '' '' @ js ''Compilation successful'') =
   js ''build complete compilation successful''"
  by (simp add: toLowerCase_def lowerUnit_def js_def)

lemma content_tests_passed:
  "toLowerCase (js ''Tests Passed'' @ js '' '' @ js ''All 25 tests completed successfully!'') =
   js ''tests passed all 25 tests completed successfully!''"
  by (simp add: toLowerCase_def lowerUnit_def js_def)

lemma content_git_push_failed:
  "toLowerCase (js ''Git Push Failed'' @ js '' '' @ js ''Permission denied to repository'') =
   js ''git push failed permission denied to repository''"
  by (simp add: toLowerCase_def lowerUnit_def js_def)

lemma content_hello_world:
  "toLowerCase (js ''Hello'' @ js '' '' @ js ''World'') = js ''hello world''"
  by (simp add: toLowerCase_def lowerUnit_def js_def)

lemma classify_build_complete:
  "analyzeNotificationContent (js ''Build Complete'') (js ''Compilation successful'') = Success"
  unfolding analyzeNotificationContent_def content_build_complete
  by (simp add: js_def patterns_def somePattern_def canonicalize_def pattern_lists)

lemma classify_tests_passed:
  "analyzeNotificationContent (js ''Tests Passed'') (js ''All 25 tests completed successfully!'')
     = Success"
  unfolding analyzeNotificationContent_def content_tests_passed
  by (simp add: js_def patterns_def somePattern_def canonicalize_def pattern_lists)

lemma classify_git_push_failed:
  "analyzeNotificationContent (js ''Git Push Failed'') (js ''Permission denied to repository'')
     = Error"
  unfolding analyzeNotificationContent_def content_git_push_failed
  by (simp add: js_def patterns_def somePattern_def canonicalize_def pattern_lists)

lemma classify_hello_world:
  "analyzeNotificationContent (js ''Hello'') (js ''World'') = Info"
  unfolding analyzeNotificationContent_def content_hello_world
  by (simp add: js_def patterns_def somePattern_def canonicalize_def pattern_lists)

text \<open>
  C2: the four classification scenarios of the spec. "Build Complete" and "Tests Passed"
  are decided by the success patterns (\<open>complete\<close>, \<open>passed\<close>), which stand before the
  build and test patterns; "Git Push Failed" is decided by the error pattern \<open>failed\<close>,
  the first category of the list; "Hello World" matches no pattern of any category.
\<close>

theorem classification_scenarios:
  "analyzeNotificationContent (js ''Build Complete'') (js ''Compilation successful'') = Success \<and>
   analyzeNotificationContent (js ''Tests Passed'') (js ''All 25 tests completed successfully!'')
     = Success \<and>
   analyzeNotificationContent (js ''Git Push Failed'') (js ''Permission denied to repository'')
     = Error \<and>
   analyzeNotificationContent (js ''Hello'') (js ''World'') = Info"
  using classify_build_complete classify_tests_passed classify_git_push_failed
    classify_hello_world
  by simp

text \<open>
  Once neither an error pattern nor a success pattern matches the content, the loop with
  the second look and the plain first-match loop agree on any list of entries.
\<close>

lemma analyzeLoop_firstMatch:
  assumes "\<not> somePattern errorPatterns content" and "\<not> somePattern successPatterns content"
  shows "analyzeLoop entries content = firstMatch entries content"
  using assms by (induction entries) auto

text \<open>
  C10: the second look at the error and success patterns never changes the result. The
  error and success entries stand before every process category in the ordered list, so
  when the loop reaches a matching process category neither of them matches the content.
  The classifier therefore equals the plain first-match classifier on every title and
  message, and whenever the result is a process category no error pattern and no success
  pattern matches.
\<close>

theorem override_unreachable:
  "analyzeNotificationContent title message = firstMatchClassifier title message \<and>
   (firstMatchClassifier title message \<in> set [Test, Build, Git, Deploy, Npm] \<longrightarrow>
      \<not> somePattern errorPatterns (toLowerCase (title @ js '' '' @ message)) \<and>
      \<not> somePattern successPatterns (toLowerCase (title @ js '' '' @ message)))"
proof -
  let ?content = "toLowerCase (title @ js '' '' @ message)"
  let ?rest = "[(Progress, progressPatterns), (Git, gitPatterns), (Build, buildPatterns),
                (Test, testPatterns), (Deploy, deployPatterns), (Npm, npmPatterns),
                (File, filePatterns)]"
  have order: "patterns =
      (Error, errorPatterns) # (Warning, warningPatterns) # (Success, successPatterns) # ?rest"
    by (simp add: patterns_def)
  show ?thesis
  proof (cases "somePattern errorPatterns ?content \<or> somePattern successPatterns ?content")
    case True
    then have early: "firstMatch patterns ?content \<in> {Error, Warning, Success}"
      by (auto simp: order)
    from True have "analyzeLoop patterns ?content = firstMatch patterns ?content"
      by (auto simp: order)
    with early show ?thesis
      by (auto simp: analyzeNotificationContent_def firstMatchClassifier_def)
  next
    case False
    then have "analyzeLoop patterns ?content = firstMatch patterns ?content"
      by (simp add: analyzeLoop_firstMatch)
    with False show ?thesis
      by (simp add: analyzeNotificationContent_def firstMatchClassifier_def)
  qed
qed

lemma content_git_pull:
  "toLowerCase (js ''Git pull'' @ js '' '' @ js ''branch main'') = js ''git pull branch main''"
  by (simp add: toLowerCase_def lowerUnit_def js_def)

lemma first_match_git_pull:
  "firstMatchClassifier (js ''Git pull'') (js ''branch main'') = Git"
  unfolding firstMatchClassifier_def content_git_pull
  by (simp add: js_def patterns_def somePattern_def canonicalize_def pattern_lists)

theorem override_unreachable_witness:
  "firstMatchClassifier (js ''Git pull'') (js ''branch main'')
     \<in> set [Test, Build, Git, Deploy, Npm] \<and>
   analyzeNotificationContent (js ''Git pull'') (js ''branch main'') = Git \<and>
   \<not> somePattern errorPatterns (toLowerCase (js ''Git pull'' @ js '' '' @ js ''branch main'')) \<and>
   \<not> somePattern successPatterns (toLowerCase (js ''Git pull'' @ js '' '' @ js ''branch main''))"
  using override_unreachable [of "js ''Git pull''" "js ''branch main''"]
  by (simp add: first_match_git_pull)

section \<open>Properties of the styling step\<close>

lemma content_rocket:
  "toLowerCase (rocketTitle @ js '' '' @ js ''now'') = js ''launch '' @ [0xD83D, 0xDE80] @ js '' now''"
  by (simp add: rocketTitle_def toLowerCase_def lowerUnit_def js_def)

lemma classify_rocket: "analyzeNotificationContent rocketTitle (js ''now'') = Deploy"
  unfolding analyzeNotificationContent_def content_rocket
  by (simp add: js_def patterns_def somePattern_def canonicalize_def pattern_lists)

lemma rocket_in_range: "matchesEmojiRange rocketTitle"
  by (simp add: rocketTitle_def matchesEmojiRange_def js_def isHighSurrogate_def
      isLowSurrogate_def inEmojiRange_def)

lemma rocket_title_kept: "enhancedTitle (classifyAndStyle rocketTitle (js ''now'')) = rocketTitle"
  by (simp add: classifyAndStyle_def classify_rocket enhanceNotificationStyle_def Let_def
      rocket_in_range)

lemma rocket_not_leading: "\<not> hasLeadingEmoji rocketTitle"
  by (simp add: hasLeadingEmoji_def isEmoji_def rocketTitle_def js_def isHighSurrogate_def
      isLowSurrogate_def inEmojiRange_def)

text \<open>
  C8, as stated: every styled title has exactly one leading emoji. This fails where the
  guard of the code applies: "Launch", a space and the rocket (U+1F680) with the message
  "now" is classified as deploy; the title already contains an emoji of the range the
  code tests, so none is added, and the styled title is the original one, which starts
  with the letter L.
\<close>

theorem leading_emoji_counterexample:
  "enhancedTitle (classifyAndStyle rocketTitle (js ''now'')) = rocketTitle \<and>
   \<not> hasLeadingEmoji (enhancedTitle (classifyAndStyle rocketTitle (js ''now''))) \<and>
   \<not> exactlyOneLeadingEmoji (enhancedTitle (classifyAndStyle rocketTitle (js ''now'')))"
  by (simp add: rocket_title_kept rocket_not_leading exactlyOneLeadingEmoji_def)

lemma codePoints_space: "codePoints (0x20 # t) = 0x20 # codePoints t"
  by (cases t) (simp_all add: isHighSurrogate_def)

lemma no_emoji_not_in_range: "emojiCount title = 0 \<Longrightarrow> \<not> matchesEmojiRange title"
  by (auto simp: emojiCount_def matchesEmojiRange_def isEmoji_def list_ex_iff filter_empty_conv)

lemma glyph_leads:
  assumes "emojiMap category = Some glyph"
  shows "hasLeadingEmoji (glyph @ js '' '' @ title) \<and>
         emojiCount (glyph @ js '' '' @ title) = Suc (emojiCount title)"
  using assms
  by (cases category)
     (auto simp: hasLeadingEmoji_def emojiCount_def isEmoji_def inEmojiRange_def js_def
        codePoints_space isHighSurrogate_def isLowSurrogate_def)

lemma emojiMap_defined: "\<exists>glyph. emojiMap category = Some glyph \<and> glyph \<noteq> []"
  by (cases category) simp_all

lemma styled_title_value:
  assumes "emojiMap (analyzeNotificationContent title message) = Some glyph"
  shows "enhancedTitle (classifyAndStyle title message) =
           (if matchesEmojiRange title then title else glyph @ js '' '' @ title)"
proof -
  from assms emojiMap_defined [of "analyzeNotificationContent title message"]
  have "glyph \<noteq> []" by auto
  with assms show ?thesis
    by (simp add: classifyAndStyle_def enhanceNotificationStyle_def Let_def truthy_def)
qed

lemma styled_message_nonempty:
  "message \<noteq> [] \<Longrightarrow> enhancedMessage (enhanceNotificationStyle title message soundType) \<noteq> []"
  by (auto simp: enhanceNotificationStyle_def Let_def truthy_def split: option.splits)

text \<open>
  C8, amended: for every non-empty title and message the styled payload has a non-empty
  title and a non-empty message and carries the classifier's category. When the title
  contains no emoji, the glyph of the category and a space are prepended and the styled
  title has exactly one leading emoji. When the title already contains a code point of
  the range U+1F300..U+1F9FF, wherever it stands, the title is left unchanged and no
  emoji is added; it then has exactly one leading emoji if the original title had.
\<close>

theorem styled_title_emoji:
  assumes "title \<noteq> []" and "message \<noteq> []"
  shows "enhancedTitle (classifyAndStyle title message) \<noteq> [] \<and>
         enhancedMessage (classifyAndStyle title message) \<noteq> [] \<and>
         sound (classifyAndStyle title message) = analyzeNotificationContent title message \<and>
         (emojiCount title = 0 \<longrightarrow>
            exactlyOneLeadingEmoji (enhancedTitle (classifyAndStyle title message)) \<and>
            (\<exists>glyph. emojiMap (analyzeNotificationContent title message) = Some glyph \<and>
               enhancedTitle (classifyAndStyle title message) = glyph @ js '' '' @ title)) \<and>
         (matchesEmojiRange title \<longrightarrow>
            enhancedTitle (classifyAndStyle title message) = title \<and>
            (exactlyOneLeadingEmoji title \<longrightarrow>
               exactlyOneLeadingEmoji (enhancedTitle (classifyAndStyle title message))))"
proof -
  let ?styled = "classifyAndStyle title message"
  obtain glyph where g: "emojiMap (analyzeNotificationContent title message) = Some glyph"
    using emojiMap_defined by blast
  note t = styled_title_value [OF g]
  have nonempty: "enhancedTitle ?styled \<noteq> []"
    using t assms(1) by simp
  have m: "enhancedMessage ?styled \<noteq> []"
    using assms(2) by (simp add: classifyAndStyle_def styled_message_nonempty)
  have s: "sound ?styled = analyzeNotificationContent title message"
    by (simp add: classifyAndStyle_def enhanceNotificationStyle_def Let_def)
  have fresh: "exactlyOneLeadingEmoji (enhancedTitle ?styled) \<and>
               enhancedTitle ?styled = glyph @ js '' '' @ title"
    if "emojiCount title = 0"
  proof -
    from that have "\<not> matchesEmojiRange title" by (rule no_emoji_not_in_range)
    with t have eq: "enhancedTitle ?styled = glyph @ js '' '' @ title" by simp
    from glyph_leads [OF g, of title] that
    have "exactlyOneLeadingEmoji (glyph @ js '' '' @ title)"
      by (simp add: exactlyOneLeadingEmoji_def)
    with eq show ?thesis by simp
  qed
  have kept: "enhancedTitle ?styled = title" if "matchesEmojiRange title"
    using t that by simp
  from nonempty m s fresh kept g show ?thesis
    by auto
qed

lemma build_complete_emoji_free: "emojiCount (js ''Build Complete'') = 0"
  by (simp add: emojiCount_def isEmoji_def js_def isHighSurrogate_def isLowSurrogate_def
      inEmojiRange_def)

lemma rocket_first_in_range: "matchesEmojiRange rocketFirstTitle"
  by (simp add: rocketFirstTitle_def matchesEmojiRange_def js_def isHighSurrogate_def
      isLowSurrogate_def inEmojiRange_def)

lemma rocket_first_leads: "exactlyOneLeadingEmoji rocketFirstTitle"
  by (simp add: exactlyOneLeadingEmoji_def hasLeadingEmoji_def emojiCount_def isEmoji_def
      rocketFirstTitle_def js_def isHighSurrogate_def isLowSurrogate_def inEmojiRange_def)

theorem styled_title_emoji_witness:
  "js ''Build Complete'' \<noteq> [] \<and> js ''Compilation successful'' \<noteq> [] \<and>
   emojiCount (js ''Build Complete'') = 0 \<and>
   exactlyOneLeadingEmoji
     (enhancedTitle (classifyAndStyle (js ''Build Complete'') (js ''Compilation successful''))) \<and>
   enhancedTitle (classifyAndStyle (js ''Build Complete'') (js ''Compilation successful'')) =
     [0x2705] @ js '' '' @ js ''Build Complete'' \<and>
   rocketFirstTitle \<noteq> [] \<and> js ''now'' \<noteq> [] \<and>
   matchesEmojiRange rocketFirstTitle \<and> exactlyOneLeadingEmoji rocketFirstTitle \<and>
   enhancedTitle (classifyAndStyle rocketFirstTitle (js ''now'')) = rocketFirstTitle \<and>
   exactlyOneLeadingEmoji (enhancedTitle (classifyAndStyle rocketFirstTitle (js ''now'')))"
proof -
  let ?t = "js ''Build Complete''" and ?m = "js ''Compilation successful''"
  have h1: "?t \<noteq> []" and h2: "?m \<noteq> []"
    by (simp_all add: js_def)
  have h3: "rocketFirstTitle \<noteq> []" and h4: "js ''now'' \<noteq> []"
    by (simp_all add: rocketFirstTitle_def js_def)
  from styled_title_emoji [OF h1 h2] build_complete_emoji_free
  obtain glyph where
    one: "exactlyOneLeadingEmoji (enhancedTitle (classifyAndStyle ?t ?m))" and
    g: "emojiMap (analyzeNotificationContent ?t ?m) = Some glyph" and
    t: "enhancedTitle (classifyAndStyle ?t ?m) = glyph @ js '' '' @ ?t"
    by blast
  from g have "glyph = [0x2705]"
    by (simp add: classify_build_complete)
  with t have shown: "enhancedTitle (classifyAndStyle ?t ?m) = [0x2705] @ js '' '' @ ?t"
    by simp
  from styled_title_emoji [OF h3 h4] rocket_first_in_range rocket_first_leads
  have kept: "enhancedTitle (classifyAndStyle rocketFirstTitle (js ''now'')) = rocketFirstTitle"
    and still: "exactlyOneLeadingEmoji
                  (enhancedTitle (classifyAndStyle rocketFirstTitle (js ''now'')))"
    by blast+
  from h1 h2 h3 h4 build_complete_emoji_free one shown rocket_first_in_range rocket_first_leads
    kept still
  show ?thesis by blast
qed

text \<open>
  Outside the amended claim: a title whose only emoji lie below the range the guard
  tests. Four glyphs of \<open>emojiMap\<close> itself do (check mark, cross mark, warning sign,
  hourglass), so a title that starts with the check mark gets the success glyph, the
  check mark, a second time, although the comment on the guard reads "Add emoji if title
  doesn't already have one".
\<close>

lemma content_checked:
  "toLowerCase (checkedTitle @ js '' '' @ js ''ok'') = [0x2705] @ js '' done ok''"
  by (simp add: checkedTitle_def toLowerCase_def lowerUnit_def js_def)

lemma classify_checked: "analyzeNotificationContent checkedTitle (js ''ok'') = Success"
  unfolding analyzeNotificationContent_def content_checked
  by (simp add: js_def patterns_def somePattern_def canonicalize_def pattern_lists)

lemma checked_not_in_range: "\<not> matchesEmojiRange checkedTitle"
  by (simp add: checkedTitle_def matchesEmojiRange_def js_def isHighSurrogate_def
      isLowSurrogate_def inEmojiRange_def)

lemma checked_title_doubled:
  "enhancedTitle (classifyAndStyle checkedTitle (js ''ok'')) = [0x2705] @ js '' '' @ checkedTitle"
  by (simp add: classifyAndStyle_def classify_checked enhanceNotificationStyle_def Let_def
      checked_not_in_range truthy_def)

lemma checked_title_count:
  "emojiCount (enhancedTitle (classifyAndStyle checkedTitle (js ''ok''))) = 2"
  unfolding checked_title_doubled
  by (simp add: emojiCount_def isEmoji_def checkedTitle_def js_def isHighSurrogate_def
      isLowSurrogate_def inEmojiRange_def)

section \<open>Properties of the environment detector\<close>

text \<open>
  C5: in every environment in which \<open>SSH_CONNECTION\<close> is set and \<open>DISPLAY\<close> is not,
  \<open>isSSHConnection\<close> is true and the best notification method is the console, whatever
  the platform, the TTY flags, the other variables and the available notifier tools.
  Set is what the source's own comments call a variable that passes the test
  \<open>if (env.NAME)\<close>: its value is defined and not the empty string. \<open>truthy\<close> is
  that test.
\<close>

theorem ssh_without_display_console:
  assumes "truthy (env p ''SSH_CONNECTION'')" and "\<not> truthy (env p ''DISPLAY'')"
  shows "isSSHConnection p \<and> getBestNotificationMethod p caps = Console"
proof -
  from assms have ssh: "isSSHConnection p"
    by (simp add: isSSHConnection_def)
  then have "shouldForceConsole p"
    by (simp add: shouldForceConsole_def)
  then have "getBestNotificationMethod p caps = Console"
    by (simp add: getBestNotificationMethod_def)
  with ssh show ?thesis by simp
qed

theorem ssh_without_display_console_witness:
  "truthy (env sshProcess ''SSH_CONNECTION'') \<and> \<not> truthy (env sshProcess ''DISPLAY'') \<and>
   hasAlerter allNotifiers \<and> hasTerminalNotifier allNotifiers \<and> hasOsascript allNotifiers \<and>
   isSSHConnection sshProcess \<and> getBestNotificationMethod sshProcess allNotifiers = Console"
proof -
  have h1: "truthy (env sshProcess ''SSH_CONNECTION'')"
    by (simp add: sshProcess_def truthy_def js_def)
  have h2: "\<not> truthy (env sshProcess ''DISPLAY'')"
    by (simp add: sshProcess_def truthy_def)
  from ssh_without_display_console [OF h1 h2, of allNotifiers] show ?thesis
    using h1 h2 by (simp add: allNotifiers_def)
qed

text \<open>
  The boundary of that reading: a variable defined as the empty string does not pass
  the test. With \<open>SSH_CONNECTION\<close> empty and nothing else defined, no SSH session is
  detected.
\<close>

lemma empty_ssh_connection_not_detected:
  "\<not> isSSHConnection (p\<lparr>env := (\<lambda>name. if name = ''SSH_CONNECTION'' then Some [] else None)\<rparr>)"
  by (simp add: isSSHConnection_def truthy_def)

text \<open>
  C6: when \<open>CAT_CCNOTIFY_FORCE_CONSOLE\<close> is the string \<open>true\<close>, the best notification
  method is the console for every process and every capability set: the test is the
  first statement of \<open>getBestNotificationMethod\<close>, and the result depends on nothing
  else (SSH, CI and TTY detection, tool availability, platform).
\<close>

theorem force_console_wins:
  assumes "env p ''CAT_CCNOTIFY_FORCE_CONSOLE'' = Some (js ''true'')"
  shows "getBestNotificationMethod p caps = Console"
  using assms by (simp add: getBestNotificationMethod_def)

theorem force_console_wins_witness:
  "env forcedConsoleProcess ''CAT_CCNOTIFY_FORCE_CONSOLE'' = Some (js ''true'') \<and>
   \<not> shouldForceConsole forcedConsoleProcess \<and>
   osPlatform forcedConsoleProcess = Darwin \<and> hasAlerter allNotifiers \<and>
   getBestNotificationMethod forcedConsoleProcess allNotifiers = Console"
proof -
  have h: "env forcedConsoleProcess ''CAT_CCNOTIFY_FORCE_CONSOLE'' = Some (js ''true'')"
    by (simp add: forcedConsoleProcess_def)
  have n: "\<not> shouldForceConsole forcedConsoleProcess"
    by (simp add: forcedConsoleProcess_def shouldForceConsole_def isSSHConnection_def
        isCIEnvironment_def ciIndicators_def isNonTTYEnvironment_def truthy_def)
  from force_console_wins [OF h, of allNotifiers] show ?thesis
    using h n by (simp add: forcedConsoleProcess_def allNotifiers_def)
qed

text \<open>
  C7, as stated: \<open>isNonTTYEnvironment\<close> is true exactly when the \<open>isTTY\<close> flag of
  standard output is explicitly false. This fails: with standard output a terminal and
  standard input explicitly not one, the function returns true. The repository's test
  "should detect non-TTY stdin" expects that.
\<close>

theorem non_tty_stdout_only_counterexample:
  "isNonTTYEnvironment pipedStdinProcess \<and> stdoutIsTTY pipedStdinProcess \<noteq> Some False"
  by (simp add: isNonTTYEnvironment_def pipedStdinProcess_def)

text \<open>
  C7, amended: \<open>isNonTTYEnvironment\<close> is true exactly when the \<open>isTTY\<close> flag of
  standard output or that of standard input is explicitly false; an undefined flag of
  either stream does not count.
\<close>

theorem non_tty_iff_explicit_false:
  "isNonTTYEnvironment p \<longleftrightarrow> stdoutIsTTY p = Some False \<or> stdinIsTTY p = Some False"
  by (simp add: isNonTTYEnvironment_def)

section \<open>Properties of parent application detection\<close>



lemma detectParentApp_cases:
  "detectParentApp w p this =
     (case fst (walkAncestors w (Num (ppid p)) 0) of
        Inr (Some app) \<Rightarrow> Inr app
      | Inr None \<Rightarrow> Inr (getFallbackApp this)
      | Inl e \<Rightarrow> Inr (getFallbackApp this),
      snd (walkAncestors w (Num (ppid p)) 0))"
  by (cases "walkAncestors w (Num (ppid p)) 0")
     (auto simp: detectParentApp_def split: sum.splits option.splits)

lemma detectParentApp_returns: "\<exists>app. fst (detectParentApp w p this) = Inr app"
  by (simp add: detectParentApp_cases split: sum.splits option.splits)









lemma ps_4242: "psCommand 4242 = js ''ps -p 4242 -o pid,ppid,comm,args''"
  by (simp add: psCommand_def numberToString_def digits.simps js_def)

lemma ps_501: "psCommand 501 = js ''ps -p 501 -o pid,ppid,comm,args''"
  by (simp add: psCommand_def numberToString_def digits.simps js_def)

lemmas parse_defs = parseProcessLine_def splitWhiteSpace_def trim_def isWhiteSpace_def
  element_def parseInt_def Let_def digitsValue_def isDigitOf_def digitValue_def hasHexPrefix_def
  split_def

lemma shell_output:
  "split 0x0A (trim shellPsOutput) =
     [js ''PID  PPID COMM             ARGS'', js '' 4242   501 -zsh             -zsh'']"
  by (simp add: shellPsOutput_def js_def trim_def isWhiteSpace_def split_def)

lemma shell_line:
  "parseProcessLine (js '' 4242   501 -zsh             -zsh'') =
     \<lparr>infoPid = Num 4242, infoPpid = Num 501, infoCommand = Some (js ''-zsh''),
      infoArgs = js ''-zsh''\<rparr>"
  by (simp add: js_def parse_defs)

lemma iterm_output:
  "split 0x0A (trim itermPsOutput) =
     [js ''PID  PPID COMM             ARGS'',
      js ''  501     1 iTerm2           /Applications/iTerm.app/Contents/MacOS/iTerm2'']"
  by (simp add: itermPsOutput_def js_def trim_def isWhiteSpace_def split_def)

lemma iterm_line:
  "parseProcessLine (js ''  501     1 iTerm2           /Applications/iTerm.app/Contents/MacOS/iTerm2'') =
     \<lparr>infoPid = Num 501, infoPpid = Num 1, infoCommand = Some (js ''iTerm2''),
      infoArgs = js ''/Applications/iTerm.app/Contents/MacOS/iTerm2''\<rparr>"
  by (simp add: js_def parse_defs)

lemma iterm_world_shell:
  "execSync itermAncestry (js ''ps -p 4242 -o pid,ppid,comm,args'') = Some shellPsOutput"
  by (simp add: itermAncestry_def)

lemma iterm_world_iterm:
  "execSync itermAncestry (js ''ps -p 501 -o pid,ppid,comm,args'') = Some itermPsOutput"
proof -
  have "js ''ps -p 501 -o pid,ppid,comm,args'' \<noteq> js ''ps -p 4242 -o pid,ppid,comm,args''"
    by (simp add: js_def)
  then show ?thesis
    by (simp add: itermAncestry_def)
qed















lemma shell_not_terminal:
  "identifyTerminalApp \<lparr>infoPid = Num 4242, infoPpid = Num 501, infoCommand = Some (js ''-zsh''),
      infoArgs = js ''-zsh''\<rparr> = Inr None"
  by (simp add: identifyTerminalApp_def js_def)

lemma iterm_is_terminal:
  "identifyTerminalApp \<lparr>infoPid = Num 501, infoPpid = Num 1, infoCommand = Some (js ''iTerm2''),
      infoArgs = js ''/Applications/iTerm.app/Contents/MacOS/iTerm2''\<rparr> =
   Inr (Some \<lparr>appName = js ''iTerm2'', bundleId = Some (js ''com.googlecode.iterm2''),
              appType = js ''terminal'', supportsTabFocus = Some False,
              appPath = None, appPid = None\<rparr>)"
  by (simp add: identifyTerminalApp_def) (simp add: js_def)

lemma iterm_ancestors_walk:
  "walkAncestors itermAncestry (Num 4242) 0 =
     (Inr (Some \<lparr>appName = js ''iTerm2'', bundleId = Some (js ''com.googlecode.iterm2''),
                 appType = js ''terminal'', supportsTabFocus = Some False,
                 appPath = None, appPid = None\<rparr>),
      [4242, 501])"
  by (simp add: walkAncestors.simps [of itermAncestry "Num 4242" 0]
      walkAncestors.simps [of itermAncestry "Num 501" "Suc 0"]
      maxLevels_def ps_4242 ps_501 iterm_world_shell iterm_world_iterm shell_output iterm_output
      shell_line iterm_line shell_not_terminal iterm_is_terminal Let_def)






text \<open>
  The walk of \<open>EnvironmentDetector\<close> on the process table with iTerm2 as the shell's
  parent: two probes, and the iTerm2 record is returned.
\<close>

lemma iterm_detected:
  "detectParentApp itermAncestry macProcess this =
     (Inr \<lparr>appName = js ''iTerm2'', bundleId = Some (js ''com.googlecode.iterm2''),
           appType = js ''terminal'', supportsTabFocus = Some False,
           appPath = None, appPid = None\<rparr>,
      [4242, 501])"
  by (simp add: detectParentApp_def macProcess_def iterm_ancestors_walk)

section \<open>Properties of the dispatcher\<close>

lemma sendWithConsole_result: "fst (sendWithConsole w this title message) = Inr consoleResult"
  by (simp add: sendWithConsole_def consoleResult_def)

lemma sendWithAlerter_rejects:
  "sendWithAlerter w this title message parentApp = (Inl ReferenceError, [])"
  by (simp add: sendWithAlerter_def Let_def)

text \<open>
  Inside the \<open>try\<close> block the fallback works for every method: when the commands of
  terminal-notifier, osascript, notify-send and PowerShell throw, \<open>sendNotification\<close>
  returns success through the console, whatever method was selected, unless the early
  return for iTerm2 with \<open>osascript\<close> is taken. With the method \<open>alerter\<close> the
  rejected promise is caught in the same way.
\<close>

lemma fallback_inside_try:
  assumes early: "\<not> (isITerm2 (detectedTerminal (detector this)) \<and>
                     bestNotificationMethod (detectedCapabilities (detector this)) = Osascript)"
    and tn: "\<forall>parentApp. execSync w (terminalNotifierCommand parentApp title message) = None"
    and osa: "execSync w (osascriptCommand title message) = None"
    and ns: "execSync w (notifySendCommand title message) = None"
    and ps: "execSync w (powershellCommand title message) = None"
  shows "fst (sendNotification w p this title message) = Inr consoleResult"
proof -
  obtain parentApp where "fst (detectParentApp w p (detector this)) = Inr parentApp"
    using detectParentApp_returns by blast
  then obtain probed where d: "detectParentApp w p (detector this) = (Inr parentApp, probed)"
    by (cases "detectParentApp w p (detector this)") simp
  let ?chosen = "bestNotificationMethod (detectedCapabilities (detector this))"
  show ?thesis
  proof (cases ?chosen)
    case Alerter
    then show ?thesis
      using early d
      by (simp add: sendNotification_def sendWithMethod_def sendWithAlerter_rejects Let_def
          sendWithConsole_def consoleResult_def)
  next
    case TerminalNotifier
    then show ?thesis
      using early d tn
      by (simp add: sendNotification_def sendWithMethod_def sendWithTerminalNotifier_def Let_def
          sendWithConsole_def consoleResult_def)
  next
    case Osascript
    then show ?thesis
      using early d osa
      by (simp add: sendNotification_def sendWithMethod_def sendWithOsascript_def Let_def
          sendWithConsole_def consoleResult_def)
  next
    case NotifySend
    then show ?thesis
      using early d ns
      by (simp add: sendNotification_def sendWithMethod_def sendWithNotifySend_def Let_def
          sendWithConsole_def consoleResult_def)
  next
    case Powershell
    then show ?thesis
      using early d ps
      by (simp add: sendNotification_def sendWithMethod_def sendWithPowerShell_def Let_def
          sendWithConsole_def consoleResult_def)
  next
    case Console
    then show ?thesis
      using early d
      by (simp add: sendNotification_def sendWithMethod_def Let_def
          sendWithConsole_def consoleResult_def)
  qed
qed

lemmas detector_defs =
  newEnvironmentDetector_def detectNotificationCapabilities_def Let_def
  getBestNotificationMethod_def shouldForceConsole_def isSSHConnection_def isCIEnvironment_def
  ciIndicators_def isNonTTYEnvironment_def truthy_def commandExists_def

lemma alerter_chosen:
  "bestNotificationMethod (detectedCapabilities (newEnvironmentDetector alerterInstalled macProcess))
     = Alerter"
  by (simp add: detector_defs macProcess_def alerterInstalled_def js_def)

text \<open>
  A Mac on which \<open>alerter\<close> is installed and selected: the delivery is rejected with
  the ReferenceError and the notification reaches the console.
\<close>

lemma alerter_reaches_console:
  "fst (sendNotification alerterInstalled macProcess
          (newAdaptiveNotifier alerterInstalled macProcess (js ''/opt/cat-ccnotify''))
          (js ''Build Complete'') (js ''Compilation successful'')) = Inr consoleResult"
proof -
  let ?notifier = "newAdaptiveNotifier alerterInstalled macProcess (js ''/opt/cat-ccnotify'')"
  let ?t = "js ''Build Complete''" and ?m = "js ''Compilation successful''"
  have d: "detector ?notifier = newEnvironmentDetector alerterInstalled macProcess"
    by (simp add: newAdaptiveNotifier_def)
  have early: "\<not> (isITerm2 (detectedTerminal (detector ?notifier)) \<and>
                  bestNotificationMethod (detectedCapabilities (detector ?notifier)) = Osascript)"
    by (simp add: d alerter_chosen)
  have tn: "\<forall>parentApp. execSync alerterInstalled
              (terminalNotifierCommand parentApp ?t ?m) = None"
    by (simp add: alerterInstalled_def terminalNotifierCommand_def) (simp add: js_def)
  have osa: "execSync alerterInstalled (osascriptCommand ?t ?m) = None"
    by (simp add: alerterInstalled_def osascriptCommand_def) (simp add: js_def)
  have ns: "execSync alerterInstalled (notifySendCommand ?t ?m) = None"
    by (simp add: alerterInstalled_def notifySendCommand_def) (simp add: js_def)
  have ps: "execSync alerterInstalled (powershellCommand ?t ?m) = None"
    by (simp add: alerterInstalled_def powershellCommand_def) (simp add: js_def)
  show ?thesis
    by (rule fallback_inside_try [OF early tn osa ns ps])
qed

lemma osascript_chosen_in_iterm:
  "bestNotificationMethod (detectedCapabilities (newEnvironmentDetector osascriptFails itermProcess))
     = Osascript"
  by (simp add: detector_defs itermProcess_def osascriptFails_def js_def)

lemma osascript_chosen_in_terminal:
  "bestNotificationMethod (detectedCapabilities (newEnvironmentDetector osascriptFails macProcess))
     = Osascript"
  by (simp add: detector_defs macProcess_def osascriptFails_def js_def)

lemma iterm_is_iterm2:
  "isITerm2 (detectedTerminal (newEnvironmentDetector osascriptFails itermProcess))"
  by (simp add: newEnvironmentDetector_def detectTerminalEnvironment_def itermProcess_def)

lemma terminal_is_not_iterm2:
  "\<not> isITerm2 (detectedTerminal (newEnvironmentDetector osascriptFails macProcess))"
  by (simp add: newEnvironmentDetector_def detectTerminalEnvironment_def macProcess_def js_def)

lemma osascript_run_fails:
  "execSync osascriptFails
     (osascriptCommand (js ''Build Complete'') (js ''Compilation successful'')) = None"
  by (simp add: osascriptFails_def osascriptCommand_def) (simp add: js_def)

lemma osascript_failure_raises_in_iterm:
  "fst (sendNotification osascriptFails itermProcess
          (newAdaptiveNotifier osascriptFails itermProcess (js ''/opt/cat-ccnotify''))
          (js ''Build Complete'') (js ''Compilation successful'')) =
   Inl (NotifierError Osascript)"
proof -
  obtain parentApp probed where
    d: "detectParentApp osascriptFails itermProcess
          (newEnvironmentDetector osascriptFails itermProcess) = (Inr parentApp, probed)"
    using detectParentApp_returns
      [of osascriptFails itermProcess "newEnvironmentDetector osascriptFails itermProcess"]
    by (cases "detectParentApp osascriptFails itermProcess
          (newEnvironmentDetector osascriptFails itermProcess)") auto
  show ?thesis
    by (simp add: sendNotification_def newAdaptiveNotifier_def d iterm_is_iterm2
        osascript_chosen_in_iterm sendWithOsascript_def Let_def osascript_run_fails)
qed

lemma osascript_failure_falls_back_in_terminal:
  "fst (sendNotification osascriptFails macProcess
          (newAdaptiveNotifier osascriptFails macProcess (js ''/opt/cat-ccnotify''))
          (js ''Build Complete'') (js ''Compilation successful'')) = Inr consoleResult"
proof -
  let ?notifier = "newAdaptiveNotifier osascriptFails macProcess (js ''/opt/cat-ccnotify'')"
  let ?t = "js ''Build Complete''" and ?m = "js ''Compilation successful''"
  have d: "detector ?notifier = newEnvironmentDetector osascriptFails macProcess"
    by (simp add: newAdaptiveNotifier_def)
  have early: "\<not> (isITerm2 (detectedTerminal (detector ?notifier)) \<and>
                  bestNotificationMethod (detectedCapabilities (detector ?notifier)) = Osascript)"
    by (simp add: d terminal_is_not_iterm2)
  have tn: "\<forall>parentApp. execSync osascriptFails
              (terminalNotifierCommand parentApp ?t ?m) = None"
    by (simp add: osascriptFails_def terminalNotifierCommand_def) (simp add: js_def)
  have ns: "execSync osascriptFails (notifySendCommand ?t ?m) = None"
    by (simp add: osascriptFails_def notifySendCommand_def) (simp add: js_def)
  have ps: "execSync osascriptFails (powershellCommand ?t ?m) = None"
    by (simp add: osascriptFails_def powershellCommand_def) (simp add: js_def)
  show ?thesis
    by (rule fallback_inside_try [OF early tn osascript_run_fails ns ps])
qed

text \<open>
  C1: when every external notifier fails, \<open>sendNotification\<close> must still return success
  through the console. The code does so on every path through its \<open>try\<close> block, but
  not on the early return for iTerm2 with the method \<open>osascript\<close>, which stands before
  the \<open>try\<close> block. On a Mac where only \<open>osascript\<close> is installed and its run fails,
  the notifier constructed in an iTerm2 session selects \<open>osascript\<close>, takes the early
  return, and the failure is raised to the caller of \<open>sendNotification\<close>: no result
  is returned and the console is not used. The same operating system and payload in a
  Terminal session go through the \<open>switch\<close>, where the same failing call is caught
  and the console delivers.
\<close>

theorem iterm2_early_return_raises:
  "isITerm2 (detectedTerminal (newEnvironmentDetector osascriptFails itermProcess)) \<and>
   bestNotificationMethod (detectedCapabilities (newEnvironmentDetector osascriptFails itermProcess))
     = Osascript \<and>
   execSync osascriptFails
     (osascriptCommand (js ''Build Complete'') (js ''Compilation successful'')) = None \<and>
   fst (sendNotification osascriptFails itermProcess
          (newAdaptiveNotifier osascriptFails itermProcess (js ''/opt/cat-ccnotify''))
          (js ''Build Complete'') (js ''Compilation successful'')) =
     Inl (NotifierError Osascript) \<and>
   fst (sendNotification osascriptFails macProcess
          (newAdaptiveNotifier osascriptFails macProcess (js ''/opt/cat-ccnotify''))
          (js ''Build Complete'') (js ''Compilation successful'')) = Inr consoleResult"
  using iterm_is_iterm2 osascript_chosen_in_iterm osascript_run_fails
    osascript_failure_raises_in_iterm osascript_failure_falls_back_in_terminal
  by simp

end
